theory Spec2Isabelle
  imports Main "HOL-Library.Word" "HOL-Library.AList"
begin

section \<open>Python values shared by the modules\<close>

text \<open>
  The four modules (\<open>rns.py\<close>, \<open>lxmf.py\<close>, \<open>lxst.py\<close>, \<open>app.py\<close>) wrap three libraries
  (RNS, LXMF, LXST). Every operation of the managers is a \<open>try\<close> block around library calls:
  it returns an object, \<open>True\<close>, \<open>False\<close> or \<open>None\<close>, and prints one diagnostic line on
  failure. The model keeps both: the returned value, and the lines printed.

  A Python \<open>bytes\<close> value is a list of 8-bit words, a Python \<open>str\<close> a \<open>string\<close>. An object
  of a library is a reference (the number \<open>id(obj)\<close> returns); what a library call does is
  a parameter of the model, gathered in a record per library.
\<close>

type_synonym bytes = "8 word list"

type_synonym ref = nat

text \<open>
  The exceptions a library call can raise, as far as the handlers of the source tell them
  apart: \<open>rns.py\<close> catches \<open>(OSError, ValueError)\<close>, every other handler catches
  \<open>Exception\<close>. The string is the exception's message, which the handlers print.
\<close>

datatype exn = OSError string | ValueError string | OtherException string

fun exn_str :: "exn \<Rightarrow> string" where
  "exn_str (OSError s) = s"
| "exn_str (ValueError s) = s"
| "exn_str (OtherException s) = s"

text \<open>\<open>str(n)\<close> of a natural number, as the f-strings of the source format \<open>id(obj)\<close> and \<open>len(h)\<close>.\<close>

function str_nat :: "nat \<Rightarrow> string" where
  "str_nat n =
     (if n < 10 then [''0123456789'' ! n]
      else str_nat (n div 10) @ [''0123456789'' ! (n mod 10)])"
  by pat_completeness auto
termination
  by (relation "measure id") auto

declare str_nat.simps [simp del]

section \<open>lxst.py: the streaming manager\<close>

text \<open>
  \<open>LXSTManager.__init__\<close>: three dictionaries from generated identifier to object, and the
  identity and destination. A dictionary is an association list in insertion order
  (\<open>AList.update\<close> replaces in place or appends, \<open>AList.delete\<close> removes, \<open>map_of\<close> looks up).
\<close>

record LXSTManager =
  sources :: "(string \<times> ref) list"
  sinks :: "(string \<times> ref) list"
  pipelines :: "(string \<times> ref) list"
  lxst_identity :: "ref option"
  lxst_destination :: "ref option"

definition LXSTManager_init :: LXSTManager where
  "LXSTManager_init =
     \<lparr>sources = [], sinks = [], pipelines = [], lxst_identity = None, lxst_destination = None\<rparr>"

text \<open>
  What lies outside the manager: the state of every pipeline object (the manager holds
  references only, so a pipeline a caller stops is the same object the registry names) and
  the lines printed so far.
\<close>

record 'p lxst_world =
  heap :: "ref \<Rightarrow> 'p"
  lxst_stdout :: "string list"

text \<open>
  The LXST library. A constructor raises or returns the new object; \<open>Pipeline\<close> also gives
  the new object's state. \<open>pipeline.start()\<close> and \<open>pipeline.stop()\<close> leave the object in a
  new state and may raise; \<open>pipeline_active\<close> reads the attribute \<open>active\<close>: \<open>None\<close> when the
  object has no such attribute, else its truth value.
\<close>

record ('kw, 'p) lxst_lib =
  LocalSource :: "'kw \<Rightarrow> exn + ref"
  RemoteSource :: "'kw \<Rightarrow> exn + ref"
  OpusFileSource :: "'kw \<Rightarrow> exn + ref"
  LocalSink :: "'kw \<Rightarrow> exn + ref"
  RemoteSink :: "'kw \<Rightarrow> exn + ref"
  Null :: "'kw \<Rightarrow> exn + ref"
  Pipeline :: "ref \<Rightarrow> ref \<Rightarrow> 'kw \<Rightarrow> exn + ref \<times> 'p"
  pipeline_start :: "'p \<Rightarrow> exn option \<times> 'p"
  pipeline_stop :: "'p \<Rightarrow> exn option \<times> 'p"
  pipeline_active :: "'p \<Rightarrow> bool option"

definition print_line :: "string \<Rightarrow> 'p lxst_world \<Rightarrow> 'p lxst_world" where
  "print_line s w = w\<lparr>lxst_stdout := lxst_stdout w @ [s]\<rparr>"

definition set_obj :: "ref \<Rightarrow> 'p \<Rightarrow> 'p lxst_world \<Rightarrow> 'p lxst_world" where
  "set_obj r p w = w\<lparr>heap := (heap w)(r := p)\<rparr>"

text \<open>\<open>create_audio_source\<close> (lxst.py 46-72).\<close>

fun create_audio_source ::
  "('kw, 'p) lxst_lib \<Rightarrow> string \<Rightarrow> 'kw \<Rightarrow> LXSTManager \<times> 'p lxst_world
     \<Rightarrow> ref option \<times> LXSTManager \<times> 'p lxst_world" where
  "create_audio_source lib source_type kwargs (m, w) =
     (case (if source_type = ''local'' then Some (LocalSource lib kwargs)
            else if source_type = ''remote'' then Some (RemoteSource lib kwargs)
            else if source_type = ''file'' then Some (OpusFileSource lib kwargs)
            else None) of
        None \<Rightarrow> (None, m, print_line (''Unknown source type: '' @ source_type) w)
      | Some (Inl e) \<Rightarrow> (None, m, print_line (''Failed to create audio source: '' @ exn_str e) w)
      | Some (Inr source) \<Rightarrow>
          (Some source,
           m\<lparr>sources := AList.update (''source_'' @ str_nat source) source (sources m)\<rparr>, w))"

text \<open>\<open>create_audio_sink\<close> (lxst.py 74-100).\<close>

fun create_audio_sink ::
  "('kw, 'p) lxst_lib \<Rightarrow> string \<Rightarrow> 'kw \<Rightarrow> LXSTManager \<times> 'p lxst_world
     \<Rightarrow> ref option \<times> LXSTManager \<times> 'p lxst_world" where
  "create_audio_sink lib sink_type kwargs (m, w) =
     (case (if sink_type = ''local'' then Some (LocalSink lib kwargs)
            else if sink_type = ''remote'' then Some (RemoteSink lib kwargs)
            else if sink_type = ''null'' then Some (Null lib kwargs)
            else None) of
        None \<Rightarrow> (None, m, print_line (''Unknown sink type: '' @ sink_type) w)
      | Some (Inl e) \<Rightarrow> (None, m, print_line (''Failed to create audio sink: '' @ exn_str e) w)
      | Some (Inr sink) \<Rightarrow>
          (Some sink, m\<lparr>sinks := AList.update (''sink_'' @ str_nat sink) sink (sinks m)\<rparr>, w))"

text \<open>\<open>create_pipeline\<close> (lxst.py 102-120).\<close>

fun create_pipeline ::
  "('kw, 'p) lxst_lib \<Rightarrow> ref \<Rightarrow> ref \<Rightarrow> 'kw \<Rightarrow> LXSTManager \<times> 'p lxst_world
     \<Rightarrow> ref option \<times> LXSTManager \<times> 'p lxst_world" where
  "create_pipeline lib source sink kwargs (m, w) =
     (case Pipeline lib source sink kwargs of
        Inl e \<Rightarrow> (None, m, print_line (''Failed to create pipeline: '' @ exn_str e) w)
      | Inr (pipeline, p) \<Rightarrow>
          (Some pipeline,
           m\<lparr>pipelines := AList.update (''pipeline_'' @ str_nat pipeline) pipeline (pipelines m)\<rparr>,
           set_obj pipeline p w))"

text \<open>\<open>start_pipeline\<close> (lxst.py 122-136) and \<open>stop_pipeline\<close> (lxst.py 138-152).\<close>

fun start_pipeline ::
  "('kw, 'p) lxst_lib \<Rightarrow> ref \<Rightarrow> LXSTManager \<times> 'p lxst_world \<Rightarrow> bool \<times> LXSTManager \<times> 'p lxst_world"
  where
  "start_pipeline lib pipeline (m, w) =
     (case pipeline_start lib (heap w pipeline) of
        (None, p) \<Rightarrow> (True, m, set_obj pipeline p w)
      | (Some e, p) \<Rightarrow>
          (False, m, print_line (''Failed to start pipeline: '' @ exn_str e) (set_obj pipeline p w)))"

fun stop_pipeline ::
  "('kw, 'p) lxst_lib \<Rightarrow> ref \<Rightarrow> LXSTManager \<times> 'p lxst_world \<Rightarrow> bool \<times> LXSTManager \<times> 'p lxst_world"
  where
  "stop_pipeline lib pipeline (m, w) =
     (case pipeline_stop lib (heap w pipeline) of
        (None, p) \<Rightarrow> (True, m, set_obj pipeline p w)
      | (Some e, p) \<Rightarrow>
          (False, m, print_line (''Failed to stop pipeline: '' @ exn_str e) (set_obj pipeline p w)))"

text \<open>\<open>list_active_pipelines\<close> (lxst.py 206-213): \<open>getattr(pipeline, 'active', False)\<close>.\<close>

fun list_active_pipelines :: "('kw, 'p) lxst_lib \<Rightarrow> LXSTManager \<times> 'p lxst_world \<Rightarrow> string list" where
  "list_active_pipelines lib (m, w) =
     map fst (filter (\<lambda>(pipeline_id, pipeline).
        pipeline_active lib (heap w pipeline) = Some True) (pipelines m))"

text \<open>
  \<open>close_pipeline\<close> (lxst.py 215-234). \<open>hasattr(pipeline, 'active') and pipeline.active\<close> is
  \<open>pipeline_active = Some True\<close>; \<open>del self.pipelines[pipeline_id]\<close> runs only when
  \<open>pipeline.stop()\<close> has returned.
\<close>

fun close_pipeline ::
  "('kw, 'p) lxst_lib \<Rightarrow> string \<Rightarrow> LXSTManager \<times> 'p lxst_world \<Rightarrow> bool \<times> LXSTManager \<times> 'p lxst_world"
  where
  "close_pipeline lib pipeline_id (m, w) =
     (case map_of (pipelines m) pipeline_id of
        Some pipeline \<Rightarrow>
          (if pipeline_active lib (heap w pipeline) = Some True then
             (case pipeline_stop lib (heap w pipeline) of
                (None, p) \<Rightarrow>
                  (True, m\<lparr>pipelines := AList.delete pipeline_id (pipelines m)\<rparr>,
                   set_obj pipeline p w)
              | (Some e, p) \<Rightarrow>
                  (False, m,
                   print_line (''Failed to close pipeline '' @ pipeline_id @ '': '' @ exn_str e)
                     (set_obj pipeline p w)))
           else (True, m\<lparr>pipelines := AList.delete pipeline_id (pipelines m)\<rparr>, w))
      | None \<Rightarrow> (False, m, w))"

text \<open>
  Modelled from the spec: the lifecycle of \<open>LXST.Pipeline\<close>, a class of the LXST library
  that is not part of this repository. The spec gives a pipeline the lifecycle state
  \<open>{created, running, stopped}\<close> and an \<open>active\<close> flag; \<open>start\<close> "transitions
  created|stopped \<rightarrow> running", \<open>stop\<close> "transitions running \<rightarrow> stopped; safe to call on an
  already-stopped pipeline (idempotent no-op, returns success)".
\<close>

datatype lifecycle = created | running | stopped

definition spec_pipeline_start :: "lifecycle \<Rightarrow> exn option \<times> lifecycle" where
  "spec_pipeline_start p = (None, running)"

definition spec_pipeline_stop :: "lifecycle \<Rightarrow> exn option \<times> lifecycle" where
  "spec_pipeline_stop p = (None, if p = running then stopped else p)"

definition spec_pipeline_active :: "lifecycle \<Rightarrow> bool option" where
  "spec_pipeline_active p = Some (p = running)"

text \<open>
  Two instances of the library to run the manager on: one whose pipelines follow the
  lifecycle above and whose constructors number the objects they return, and one whose
  \<open>pipeline.stop()\<close> raises.
\<close>

definition lifecycle_lib :: "(nat, lifecycle) lxst_lib" where
  "lifecycle_lib =
     \<lparr>LocalSource = (\<lambda>kw. Inr kw), RemoteSource = (\<lambda>kw. Inr kw),
      OpusFileSource = (\<lambda>kw. Inl (OSError ''No such file'')),
      LocalSink = (\<lambda>kw. Inr kw), RemoteSink = (\<lambda>kw. Inr kw), Null = (\<lambda>kw. Inr kw),
      Pipeline = (\<lambda>source sink kw. Inr (kw, created)),
      pipeline_start = spec_pipeline_start, pipeline_stop = spec_pipeline_stop,
      pipeline_active = spec_pipeline_active\<rparr>"

definition stuck_lib :: "(nat, lifecycle) lxst_lib" where
  "stuck_lib = lifecycle_lib\<lparr>pipeline_stop := (\<lambda>p. (Some (OtherException ''device busy''), p))\<rparr>"

section \<open>Paths and hexadecimal strings\<close>

text \<open>\<open>os.path.dirname\<close> and \<open>os.path.join\<close> of two components, as \<open>posixpath\<close> defines them.\<close>

definition dirname :: "string \<Rightarrow> string" where
  "dirname p =
     (let head = rev (dropWhile (\<lambda>c. c \<noteq> CHR ''/'') (rev p))
      in if head \<noteq> [] \<and> \<not> list_all (\<lambda>c. c = CHR ''/'') head
         then rev (dropWhile (\<lambda>c. c = CHR ''/'') (rev head)) else head)"

definition join :: "string \<Rightarrow> string \<Rightarrow> string" where
  "join a b =
     (if b \<noteq> [] \<and> hd b = CHR ''/'' then b
      else if a = [] \<or> last a = CHR ''/'' then a @ b
      else a @ ''/'' @ b)"

text \<open>
  \<open>bytes.fromhex\<close>: ASCII whitespace is skipped before each pair of hexadecimal digits;
  anything else raises \<open>ValueError\<close> (\<open>None\<close> here). \<open>bytes.hex\<close>: two lower-case digits a byte.
\<close>

definition hexval :: "char \<Rightarrow> nat option" where
  "hexval c =
     (let n = of_char c :: nat
      in if 48 \<le> n \<and> n \<le> 57 then Some (n - 48)
         else if 97 \<le> n \<and> n \<le> 102 then Some (n - 87)
         else if 65 \<le> n \<and> n \<le> 70 then Some (n - 55)
         else None)"

definition isspace :: "char \<Rightarrow> bool" where
  "isspace c = (let n = of_char c :: nat in n = 32 \<or> (9 \<le> n \<and> n \<le> 13))"

fun fromhex :: "string \<Rightarrow> bytes option" where
  "fromhex [] = Some []"
| "fromhex [c] = (if isspace c then Some [] else None)"
| "fromhex (c # d # cs) =
     (if isspace c then fromhex (d # cs)
      else (case (hexval c, hexval d) of
              (Some hi, Some lo) \<Rightarrow> map_option ((#) (of_nat (hi * 16 + lo))) (fromhex cs)
            | _ \<Rightarrow> None))"

definition hex :: "bytes \<Rightarrow> string" where
  "hex b = concat (map (\<lambda>x. [''0123456789abcdef'' ! (unat x div 16),
                              ''0123456789abcdef'' ! (unat x mod 16)]) b)"

section \<open>rns.py: the network session and the identity store\<close>

record 'i RNSManager =
  rns_identity :: "'i option"
  initialized :: bool

definition RNSManager_init :: "'i RNSManager" where
  "RNSManager_init = \<lparr>rns_identity = None, initialized = False\<rparr>"

text \<open>
  What lies outside the manager: how often \<open>RNS.Reticulum()\<close> was called and how often it
  returned an instance, how often \<open>RNS.Identity()\<close> generated a key pair, the files (with
  their contents) and directories of the file system, and the lines printed.
\<close>

record 'c rns_world =
  reticulum_calls :: nat
  reticulum_instances :: nat
  identities_generated :: nat
  files :: "string \<Rightarrow> 'c option"
  directories :: "string set"
  rns_stdout :: "string list"

definition rns_print :: "string \<Rightarrow> 'c rns_world \<Rightarrow> 'c rns_world" where
  "rns_print s w = w\<lparr>rns_stdout := rns_stdout w @ [s]\<rparr>"

text \<open>
  \<open>RNSManager.initialize\<close> (rns.py 15-28). The first argument is what \<open>RNS.Reticulum()\<close> does
  if this call reaches it: return (\<open>None\<close>) or raise. The handler catches \<open>OSError\<close> and
  \<open>ValueError\<close> only, so any other exception leaves the function (\<open>Inl\<close>).
\<close>

fun initialize_reticulum ::
  "exn option \<Rightarrow> 'i RNSManager \<times> 'c rns_world \<Rightarrow> (exn + bool) \<times> 'i RNSManager \<times> 'c rns_world"
  where
  "initialize_reticulum reticulum (m, w) =
     (if \<not> initialized m then
        (case reticulum of
           None \<Rightarrow>
             (Inr True, m\<lparr>initialized := True\<rparr>,
              w\<lparr>reticulum_calls := Suc (reticulum_calls w),
                reticulum_instances := Suc (reticulum_instances w)\<rparr>)
         | Some (OtherException msg) \<Rightarrow>
             (Inl (OtherException msg), m, w\<lparr>reticulum_calls := Suc (reticulum_calls w)\<rparr>)
         | Some e \<Rightarrow>
             (Inr False, m,
              rns_print (''Failed to initialize Reticulum: '' @ exn_str e)
                (w\<lparr>reticulum_calls := Suc (reticulum_calls w)\<rparr>)))
      else (Inr True, m, w))"

text \<open>A caller's sequence of calls of \<open>initialize\<close>, each with what \<open>RNS.Reticulum()\<close> would do then.\<close>

fun initialize_calls ::
  "exn option list \<Rightarrow> 'i RNSManager \<times> 'c rns_world
     \<Rightarrow> (exn + bool) list \<times> 'i RNSManager \<times> 'c rns_world" where
  "initialize_calls [] s = ([], s)"
| "initialize_calls (r # rs) s =
     (case initialize_reticulum r s of
        (x, s') \<Rightarrow> (case initialize_calls rs s' of (xs, s'') \<Rightarrow> (x # xs, s'')))"

text \<open>
  The RNS library as \<open>create_identity\<close> uses it. \<open>configpath\<close> is \<open>RNS.Reticulum.configpath\<close>
  (\<open>None\<close> when it is not a string); \<open>from_file\<close> gets the content of the file and returns
  the identity, \<open>None\<close> when it cannot load one, or raises; \<open>Identity\<close> generates the
  \<open>n\<close>-th new identity; \<open>to_file\<close> returns the content it wrote (\<open>None\<close> when it wrote
  nothing) or raises; \<open>makedirs\<close> is \<open>os.makedirs(path, exist_ok=True)\<close>.
\<close>

record ('i, 'c) rns_lib =
  configpath :: "string option"
  from_file :: "'c option \<Rightarrow> exn + 'i option"
  Identity :: "nat \<Rightarrow> exn + 'i"
  to_file :: "'i \<Rightarrow> exn + 'c option"
  makedirs :: "string \<Rightarrow> exn option"

definition path_exists :: "'c rns_world \<Rightarrow> string \<Rightarrow> bool" where
  "path_exists w p = (files w p \<noteq> None \<or> p \<in> directories w)"

definition create_identity_failed :: "exn \<Rightarrow> 'c rns_world \<Rightarrow> 'c rns_world" where
  "create_identity_failed e w = rns_print (''Failed to create/load identity: '' @ exn_str e) w"

text \<open>
  \<open>RNSManager.create_identity\<close> (rns.py 30-55). \<open>self.identity\<close> is assigned as soon as
  \<open>from_file\<close> or \<open>RNS.Identity()\<close> returns, before the later calls can raise.
\<close>

fun create_identity ::
  "('i, 'c) rns_lib \<Rightarrow> 'i RNSManager \<times> 'c rns_world \<Rightarrow> 'i option \<times> 'i RNSManager \<times> 'c rns_world"
  where
  "create_identity lib (m, w) =
     (case configpath lib of
        None \<Rightarrow>
          (None, m,
           create_identity_failed
             (OtherException ''expected str, bytes or os.PathLike object, not NoneType'') w)
      | Some config_path \<Rightarrow>
          (let storage_dir = join (dirname config_path) ''storage'';
               identity_file = join storage_dir ''identity''
           in if path_exists w identity_file then
                (case from_file lib (files w identity_file) of
                   Inl e \<Rightarrow> (None, m, create_identity_failed e w)
                 | Inr loaded \<Rightarrow> (loaded, m\<lparr>rns_identity := loaded\<rparr>, w))
              else
                (case Identity lib (identities_generated w) of
                   Inl e \<Rightarrow> (None, m, create_identity_failed e w)
                 | Inr new \<Rightarrow>
                     (let m1 = m\<lparr>rns_identity := Some new\<rparr>;
                          w1 = w\<lparr>identities_generated := Suc (identities_generated w)\<rparr>
                      in case makedirs lib storage_dir of
                           Some e \<Rightarrow> (None, m1, create_identity_failed e w1)
                         | None \<Rightarrow>
                             (let w2 = w1\<lparr>directories := insert storage_dir (directories w1)\<rparr>
                              in case to_file lib new of
                                   Inl e \<Rightarrow> (None, m1, create_identity_failed e w2)
                                 | Inr None \<Rightarrow> (Some new, m1, w2)
                                 | Inr (Some c) \<Rightarrow>
                                     (Some new, m1,
                                      w2\<lparr>files := (files w2)(identity_file := Some c)\<rparr>))))))"

text \<open>
  A world and a library to run the identity store on: identities are numbers, a file's
  content is a string, and only the content \<open>key\<close> loads as an identity.
\<close>

definition fresh_world :: "string rns_world" where
  "fresh_world =
     \<lparr>reticulum_calls = 0, reticulum_instances = 0, identities_generated = 0,
      files = (\<lambda>p. None), directories = {}, rns_stdout = []\<rparr>"

definition disk_lib :: "(nat, string) rns_lib" where
  "disk_lib =
     \<lparr>configpath = Some ''/home/user/.reticulum/config'',
      from_file = (\<lambda>c. if c = Some ''key'' then Inr (Some 1) else Inr None),
      Identity = (\<lambda>n. Inr (10 + n)),
      to_file = (\<lambda>i. Inr (Some ''key'')),
      makedirs = (\<lambda>path. None)\<rparr>"

section \<open>lxmf.py: the messaging manager\<close>

text \<open>
  Modelled from the spec: \<open>RNS.Reticulum.TRUNCATED_HASHLENGTH\<close>, a constant of the RNS
  library (in bits) that is not part of this repository. The spec fixes the destination
  address hash at "16 bytes, fixed length", and \<open>create_message\<close> compares the length with
  \<open>TRUNCATED_HASHLENGTH // 8\<close>.
\<close>

definition TRUNCATED_HASHLENGTH :: nat where
  "TRUNCATED_HASHLENGTH = 128"

datatype direction = IN | OUT

datatype destination_type = SINGLE

datatype delivery_method = DIRECT

text \<open>
  \<open>LXMFManager.__init__\<close>. \<open>'r\<close> is the router object, \<open>'i\<close> an identity, \<open>'d\<close> a
  destination.
\<close>

record ('i, 'd, 'r) LXMFManager =
  router :: "'r option"
  lxmf_identity :: "'i option"
  destination :: "'d option"
  storage_path :: "string option"

definition LXMFManager_init :: "('i, 'd, 'r) LXMFManager" where
  "LXMFManager_init = \<lparr>router = None, lxmf_identity = None, destination = None, storage_path = None\<rparr>"

text \<open>
  An \<open>LXMF.LXMessage\<close> as \<open>create_message\<close> builds it: the constructor's arguments and the
  two attributes set afterwards. \<open>msg_fields = None\<close> when \<open>message.fields\<close> is not assigned.
\<close>

record ('d, 'c, 'f) LXMessage =
  msg_destination :: 'd
  msg_source :: 'd
  msg_content :: 'c
  msg_title :: string
  desired_method :: delivery_method
  try_propagation_on_fail :: bool
  msg_fields :: "'f list option"

text \<open>
  The calls \<open>create_message\<close> and \<open>send_message\<close> make to the libraries, in order, and the
  lines printed: what lies outside the manager.
\<close>

datatype ('i, 'd, 'c, 'f) lxmf_call =
    Identity_recall bytes
  | Transport_request_path bytes
  | New_Destination 'i
  | New_LXMessage 'd 'd 'c string
  | Router_handle_outbound "('d, 'c, 'f) LXMessage"

record ('i, 'd, 'c, 'f) lxmf_world =
  calls :: "('i, 'd, 'c, 'f) lxmf_call list"
  lxmf_stdout :: "string list"

definition lxmf_print ::
  "string \<Rightarrow> ('i, 'd, 'c, 'f) lxmf_world \<Rightarrow> ('i, 'd, 'c, 'f) lxmf_world" where
  "lxmf_print s w = w\<lparr>lxmf_stdout := lxmf_stdout w @ [s]\<rparr>"

definition lxmf_call ::
  "('i, 'd, 'c, 'f) lxmf_call \<Rightarrow> ('i, 'd, 'c, 'f) lxmf_world \<Rightarrow> ('i, 'd, 'c, 'f) lxmf_world" where
  "lxmf_call c w = w\<lparr>calls := calls w @ [c]\<rparr>"

text \<open>
  The libraries as the messaging manager uses them. \<open>register_delivery_identity\<close> returns a
  destination or \<open>None\<close>; \<open>delivery_destinations\<close> is the values of the router's dictionary
  of that name (\<open>None\<close> when the router has no such attribute); \<open>recall\<close> is
  \<open>RNS.Identity.recall\<close>; \<open>LXMessage_raises\<close> and \<open>handle_outbound\<close> tell whether the
  constructor and \<open>router.handle_outbound\<close> raise.
\<close>

record ('i, 'd, 'r, 'c, 'f) lxmf_lib =
  gettempdir :: string
  lxmf_makedirs :: "string \<Rightarrow> exn option"
  LXMRouter :: "'i \<Rightarrow> string \<Rightarrow> exn + 'r"
  register_delivery_identity :: "'r \<Rightarrow> 'i \<Rightarrow> string \<Rightarrow> exn + 'd option"
  delivery_destinations :: "'r \<Rightarrow> 'd list option"
  Destination :: "'i \<Rightarrow> direction \<Rightarrow> destination_type \<Rightarrow> string list \<Rightarrow> exn + 'd"
  recall :: "bytes \<Rightarrow> exn + 'i option"
  request_path :: "bytes \<Rightarrow> exn option"
  LXMessage_raises :: "'d \<Rightarrow> 'd \<Rightarrow> 'c \<Rightarrow> string \<Rightarrow> exn option"
  handle_outbound :: "'r \<Rightarrow> ('d, 'c, 'f) LXMessage \<Rightarrow> exn option"

definition initialize_failed ::
  "exn \<Rightarrow> ('i, 'd, 'c, 'f) lxmf_world \<Rightarrow> ('i, 'd, 'c, 'f) lxmf_world" where
  "initialize_failed e w = lxmf_print (''Failed to initialize LXMF: '' @ exn_str e) w"

text \<open>
  \<open>LXMFManager.initialize\<close> (lxmf.py 18-62). Each attribute is assigned when its statement
  runs, so an exception raised later leaves the earlier assignments in place:
  \<open>self.router\<close> is set before \<open>register_delivery_identity\<close> is called.
\<close>

fun lxmf_initialize ::
  "('i, 'd, 'r, 'c, 'f) lxmf_lib \<Rightarrow> 'i \<Rightarrow> string \<Rightarrow> string option \<Rightarrow> string option
     \<Rightarrow> ('i, 'd, 'r) LXMFManager \<times> ('i, 'd, 'c, 'f) lxmf_world
     \<Rightarrow> bool \<times> ('i, 'd, 'r) LXMFManager \<times> ('i, 'd, 'c, 'f) lxmf_world" where
  "lxmf_initialize lib identity destination_name storage_path_arg display_name (m, w) =
     (let path = (case storage_path_arg of
                    None \<Rightarrow> join (gettempdir lib) ''lxmf_storage''
                  | Some given \<Rightarrow> given);
          m1 = m\<lparr>storage_path := Some path\<rparr>
      in case lxmf_makedirs lib path of
           Some e \<Rightarrow> (False, m1, initialize_failed e w)
         | None \<Rightarrow>
             (case LXMRouter lib identity path of
                Inl e \<Rightarrow> (False, m1, initialize_failed e w)
              | Inr r \<Rightarrow>
                  (let m2 = m1\<lparr>router := Some r\<rparr>;
                       display = (case display_name of
                                    None \<Rightarrow> destination_name
                                  | Some name \<Rightarrow> if name \<noteq> [] then name else destination_name)
                   in case register_delivery_identity lib r identity display of
                        Inl e \<Rightarrow> (False, m2, initialize_failed e w)
                      | Inr (Some d) \<Rightarrow>
                          (True, m2\<lparr>destination := Some d, lxmf_identity := Some identity\<rparr>, w)
                      | Inr None \<Rightarrow>
                          (case delivery_destinations lib r of
                             Some (d # ds) \<Rightarrow>
                               (True, m2\<lparr>destination := Some d, lxmf_identity := Some identity\<rparr>, w)
                           | _ \<Rightarrow>
                               (case Destination lib identity IN SINGLE [destination_name] of
                                  Inl e \<Rightarrow>
                                    (False, m2\<lparr>destination := None\<rparr>, initialize_failed e w)
                                | Inr d \<Rightarrow>
                                    (True,
                                     m2\<lparr>destination := Some d, lxmf_identity := Some identity\<rparr>,
                                     w))))))"

text \<open>The first argument of \<open>create_message\<close>: "16-byte bytes or hex string".\<close>

datatype hash_arg = Hex string | Bytes bytes

definition create_failed ::
  "exn \<Rightarrow> ('i, 'd, 'c, 'f) lxmf_world \<Rightarrow> ('i, 'd, 'c, 'f) lxmf_world" where
  "create_failed e w = lxmf_print (''Failed to create LXMF message: '' @ exn_str e) w"

text \<open>
  The part of \<open>create_message\<close> after the conversion of a hex string (lxmf.py 88-127), on the
  bytes of the destination hash and the manager's own destination \<open>src\<close>.
\<close>

definition create_message_bytes ::
  "('i, 'd, 'r, 'c, 'f) lxmf_lib \<Rightarrow> 'd \<Rightarrow> bytes \<Rightarrow> 'c \<Rightarrow> string option \<Rightarrow> 'f list option
     \<Rightarrow> ('i, 'd, 'c, 'f) lxmf_world
     \<Rightarrow> ('d, 'c, 'f) LXMessage option \<times> ('i, 'd, 'c, 'f) lxmf_world" where
  "create_message_bytes lib src destination_hash content title fields_arg w =
     (if \<not> length destination_hash = TRUNCATED_HASHLENGTH div 8 then
        (None,
         lxmf_print (''Invalid destination hash length: '' @ str_nat (length destination_hash)) w)
      else
        (let w1 = lxmf_call (Identity_recall destination_hash) w
         in case recall lib destination_hash of
              Inl e \<Rightarrow> (None, create_failed e w1)
            | Inr None \<Rightarrow>
                (let w2 = lxmf_call (Transport_request_path destination_hash)
                            (lxmf_print ''Could not recall Identity for destination. Requesting path...'' w1)
                 in case request_path lib destination_hash of
                      Some e \<Rightarrow> (None, create_failed e w2)
                    | None \<Rightarrow> (None, lxmf_print ''Path requested. Waiting for announce...'' w2))
            | Inr (Some identity) \<Rightarrow>
                (let w2 = lxmf_call (New_Destination identity) w1
                 in case Destination lib identity OUT SINGLE [''lxmf'', ''delivery''] of
                      Inl e \<Rightarrow> (None, create_failed e w2)
                    | Inr lxmf_destination \<Rightarrow>
                        (let title_arg = (case title of None \<Rightarrow> [] | Some t \<Rightarrow> t);
                             w3 = lxmf_call (New_LXMessage lxmf_destination src content title_arg) w2
                         in case LXMessage_raises lib lxmf_destination src content title_arg of
                              Some e \<Rightarrow> (None, create_failed e w3)
                            | None \<Rightarrow>
                                (Some \<lparr>msg_destination = lxmf_destination, msg_source = src,
                                        msg_content = content, msg_title = title_arg,
                                        desired_method = DIRECT, try_propagation_on_fail = True,
                                        msg_fields = (case fields_arg of
                                                        Some (f # fs) \<Rightarrow> Some (f # fs)
                                                      | _ \<Rightarrow> None)\<rparr>,
                                 w3)))))"

text \<open>
  \<open>LXMFManager.create_message\<close> (lxmf.py 64-127). It does not assign to the manager, so
  only the returned value and the outside change.
\<close>

definition create_message ::
  "('i, 'd, 'r, 'c, 'f) lxmf_lib \<Rightarrow> hash_arg \<Rightarrow> 'c \<Rightarrow> string option \<Rightarrow> 'f list option
     \<Rightarrow> ('i, 'd, 'r) LXMFManager \<times> ('i, 'd, 'c, 'f) lxmf_world
     \<Rightarrow> ('d, 'c, 'f) LXMessage option \<times> ('i, 'd, 'c, 'f) lxmf_world" where
  "create_message lib destination_hash content title fields_arg s =
     (case destination (fst s) of
        None \<Rightarrow> (None, lxmf_print ''LXMF destination not initialized'' (snd s))
      | Some src \<Rightarrow>
          (case destination_hash of
             Hex text \<Rightarrow>
               (case fromhex text of
                  None \<Rightarrow> (None, lxmf_print (''Invalid hash format: '' @ text) (snd s))
                | Some h \<Rightarrow> create_message_bytes lib src h content title fields_arg (snd s))
           | Bytes h \<Rightarrow> create_message_bytes lib src h content title fields_arg (snd s)))"

text \<open>\<open>LXMFManager.send_message\<close> (lxmf.py 129-147): the test is on \<open>self.router\<close>.\<close>

definition send_message ::
  "('i, 'd, 'r, 'c, 'f) lxmf_lib \<Rightarrow> ('d, 'c, 'f) LXMessage
     \<Rightarrow> ('i, 'd, 'r) LXMFManager \<times> ('i, 'd, 'c, 'f) lxmf_world
     \<Rightarrow> bool \<times> ('i, 'd, 'c, 'f) lxmf_world" where
  "send_message lib message s =
     (case router (fst s) of
        Some r \<Rightarrow>
          (let w1 = lxmf_call (Router_handle_outbound message) (snd s)
           in case handle_outbound lib r message of
                None \<Rightarrow> (True, w1)
              | Some e \<Rightarrow> (False, lxmf_print (''Failed to send LXMF message: '' @ exn_str e) w1))
      | None \<Rightarrow> (False, lxmf_print ''LXMF router not initialized'' (snd s)))"

text \<open>
  Libraries to run the messaging manager on. In \<open>loopback_lib\<close> identities, destinations
  and routers are numbers, registration gives destination 100, and only the address of
  sixteen bytes \<open>0x01\<close> is known to \<open>recall\<close>. In \<open>refusing_lib\<close> the registration of the
  delivery identity raises.
\<close>

definition loopback_lib :: "(nat, nat, nat, string, nat \<times> string) lxmf_lib" where
  "loopback_lib =
     \<lparr>gettempdir = ''/tmp'',
      lxmf_makedirs = (\<lambda>path. None),
      LXMRouter = (\<lambda>identity path. Inr 1),
      register_delivery_identity = (\<lambda>r identity name. Inr (Some 100)),
      delivery_destinations = (\<lambda>r. Some []),
      Destination = (\<lambda>identity dir type aspects. Inr (200 + identity)),
      recall = (\<lambda>h. if h = replicate 16 1 then Inr (Some 5) else Inr None),
      request_path = (\<lambda>h. None),
      LXMessage_raises = (\<lambda>dst src content title. None),
      handle_outbound = (\<lambda>r message. None)\<rparr>"

definition refusing_lib :: "(nat, nat, nat, string, nat \<times> string) lxmf_lib" where
  "refusing_lib =
     loopback_lib\<lparr>register_delivery_identity :=
       (\<lambda>r identity name. Inl (OtherException ''already registered''))\<rparr>"

definition ready_manager :: "(nat, nat, nat) LXMFManager" where
  "ready_manager =
     \<lparr>router = Some 1, lxmf_identity = Some 5, destination = Some 100,
      storage_path = Some ''/tmp/lxmf_storage''\<rparr>"

definition quiet_world :: "(nat, nat, string, nat \<times> string) lxmf_world" where
  "quiet_world = \<lparr>calls = [], lxmf_stdout = []\<rparr>"

definition hello_message :: "(nat, string, nat \<times> string) LXMessage" where
  "hello_message =
     \<lparr>msg_destination = 205, msg_source = 100, msg_content = ''hello'', msg_title = ''hi'',
      desired_method = DIRECT, try_propagation_on_fail = True, msg_fields = None\<rparr>"

section \<open>app.py: the inbound message list\<close>

text \<open>
  The values the callback inspects: \<open>None\<close>, a \<open>bytes\<close>, a \<open>str\<close>, or some other object.
  \<open>truthy\<close> is Python's truth value.
\<close>

datatype pyval = PyNone | PyBytes bytes | PyStr string | PyObj ref

fun truthy :: "pyval \<Rightarrow> bool" where
  "truthy PyNone = False"
| "truthy (PyBytes b) = (b \<noteq> [])"
| "truthy (PyStr s) = (s \<noteq> [])"
| "truthy (PyObj r) = True"

text \<open>
  A delivered message and an announced destination, by the attributes the callback probes
  with \<open>hasattr\<close> (\<open>None\<close>: no such attribute).
\<close>

record inbound_message =
  source_hash :: "pyval option"
  source :: "pyval option"
  content :: "pyval option"
  title :: "pyval option"

record announced =
  dest_hash :: "pyval option"
  display_name :: "string option"
  app_data :: "bytes option"

text \<open>
  What the callback takes from outside: \<open>RNS.Transport.destinations\<close> (or the exception
  reading it raises), \<open>bytes.decode('utf-8')\<close> (\<open>None\<close> when it raises) and \<open>str()\<close> of a
  value that is not a \<open>str\<close>.
\<close>

record app_env =
  transport_destinations :: "exn + announced list"
  decode_utf8 :: "bytes \<Rightarrow> string option"
  repr :: "pyval \<Rightarrow> string"

definition py_str :: "app_env \<Rightarrow> pyval \<Rightarrow> string" where
  "py_str env v = (case v of PyStr s \<Rightarrow> s | _ \<Rightarrow> repr env v)"

text \<open>The dictionary \<open>msg_data\<close>; the key \<open>is_sent\<close> is present in the records of sent messages only.\<close>

record msg_data =
  sender_name :: string
  sender_hash :: string
  sender_hash_bytes :: pyval
  msg_data_title :: string
  msg_data_content :: string
  is_sent :: "bool option"

record app_state =
  messages_list :: "msg_data list"
  page_ref :: "ref option"
  ui_updates :: nat
  app_stdout :: "string list"

text \<open>The loop over \<open>RNS.Transport.destinations\<close> (app.py 80-89): the first match decides, then \<open>break\<close>.\<close>

fun find_sender_name :: "app_env \<Rightarrow> pyval \<Rightarrow> announced list \<Rightarrow> string \<Rightarrow> string" where
  "find_sender_name env h [] name = name"
| "find_sender_name env h (dest # rest) name =
     (if dest_hash dest = Some h then
        (case display_name dest of
           Some (c # cs) \<Rightarrow> c # cs
         | _ \<Rightarrow>
             (case app_data dest of
                Some (b # bs) \<Rightarrow>
                  (case decode_utf8 env (b # bs) of Some decoded \<Rightarrow> decoded | None \<Rightarrow> name)
              | _ \<Rightarrow> name))
      else find_sender_name env h rest name)"

text \<open>The projection of \<open>message.content\<close> and \<open>message.title\<close> (app.py 97-117).\<close>

definition text_of :: "app_env \<Rightarrow> pyval option \<Rightarrow> string" where
  "text_of env attr =
     (case attr of
        None \<Rightarrow> []
      | Some (PyBytes raw) \<Rightarrow>
          (case decode_utf8 env raw of Some decoded \<Rightarrow> decoded | None \<Rightarrow> py_str env (PyBytes raw))
      | Some raw \<Rightarrow> if truthy raw then py_str env raw else [])"

definition sender_of :: "inbound_message \<Rightarrow> pyval" where
  "sender_of message =
     (case source_hash message of
        Some v \<Rightarrow> v
      | None \<Rightarrow> (case source message of Some v \<Rightarrow> v | None \<Rightarrow> PyNone))"

definition sender_hash_str :: "app_env \<Rightarrow> pyval \<Rightarrow> string" where
  "sender_hash_str env h =
     (if truthy h then (case h of PyBytes b \<Rightarrow> hex b | _ \<Rightarrow> take 16 (py_str env h))
      else ''Unknown'')"

definition make_msg_data :: "app_env \<Rightarrow> inbound_message \<Rightarrow> msg_data" where
  "make_msg_data env message =
     \<lparr>sender_name =
        (if truthy (sender_of message) then
           (case transport_destinations env of
              Inl e \<Rightarrow> ''Anonymous''
            | Inr dests \<Rightarrow> find_sender_name env (sender_of message) dests ''Anonymous'')
         else ''Anonymous''),
      sender_hash = sender_hash_str env (sender_of message),
      sender_hash_bytes = sender_of message,
      msg_data_title = text_of env (title message),
      msg_data_content = text_of env (content message),
      is_sent = None\<rparr>"

text \<open>
  \<open>message_callback\<close> (app.py 66-133): the record is built, \<open>messages_list.insert(0, msg_data)\<close>
  puts it at index 0, and a rebuild of the page is handed to \<open>page_ref.run_thread\<close> when a
  page is set.
\<close>

definition message_callback :: "app_env \<Rightarrow> inbound_message \<Rightarrow> app_state \<Rightarrow> app_state" where
  "message_callback env message s =
     s\<lparr>messages_list := make_msg_data env message # messages_list s,
       ui_updates := (if page_ref s \<noteq> None then Suc (ui_updates s) else ui_updates s),
       app_stdout :=
         (case (truthy (sender_of message), transport_destinations env) of
            (True, Inl e) \<Rightarrow> app_stdout s @ [''Error getting sender name: '' @ exn_str e]
          | _ \<Rightarrow> app_stdout s)\<rparr>"

text \<open>A sequence of deliveries, each the callback's invocation on one message.\<close>

fun deliver :: "app_env \<Rightarrow> inbound_message list \<Rightarrow> app_state \<Rightarrow> app_state" where
  "deliver env [] s = s"
| "deliver env (message # rest) s = deliver env rest (message_callback env message s)"

definition ascii_env :: app_env where
  "ascii_env =
     \<lparr>transport_destinations =
        Inr [\<lparr>dest_hash = Some (PyBytes (replicate 16 1)), display_name = Some ''alice'',
              app_data = None\<rparr>],
      decode_utf8 = (\<lambda>b. if list_all (\<lambda>x. x < 128) b then Some (map (\<lambda>x. char_of (unat x)) b) else None),
      repr = (\<lambda>v. ''<object>'')\<rparr>"

section \<open>Properties\<close>

subsection \<open>Helper facts\<close>

lemma set_obj_same: "heap w r = p \<Longrightarrow> set_obj r p w = w"
  by (simp add: set_obj_def fun_upd_idem)

lemma set_obj_twice: "set_obj r p (set_obj r q w) = set_obj r p w"
  by (simp add: set_obj_def)

lemma heap_set_obj: "heap (set_obj r p w) r = p"
  by (simp add: set_obj_def)

subsection \<open>Streaming manager\<close>

text \<open>
  C6. For every pipeline id that is not in the registry, \<open>close_pipeline\<close> returns the
  failure value \<open>False\<close> and leaves the manager and everything outside it unchanged; and
  after a close that succeeded, a second close of the same id returns \<open>False\<close> and changes
  nothing.
\<close>

theorem close_pipeline_unknown_id:
  "(map_of (pipelines m) pipeline_id = None \<longrightarrow>
      close_pipeline lib pipeline_id (m, w) = (False, m, w)) \<and>
   (close_pipeline lib pipeline_id (m, w) = (True, m', w') \<longrightarrow>
      close_pipeline lib pipeline_id (m', w') = (False, m', w'))"
  by (auto simp: AList.delete_conv split: option.splits if_splits prod.splits)

theorem close_pipeline_unknown_id_witness:
  "map_of (pipelines (LXSTManager_init\<lparr>pipelines := [(''pipeline_7'', 7)]\<rparr>)) ''pipeline_9'' = None \<and>
   close_pipeline lifecycle_lib ''pipeline_9''
     (LXSTManager_init\<lparr>pipelines := [(''pipeline_7'', 7)]\<rparr>,
      \<lparr>heap = (\<lambda>r. running), lxst_stdout = []\<rparr>) =
     (False, LXSTManager_init\<lparr>pipelines := [(''pipeline_7'', 7)]\<rparr>,
      \<lparr>heap = (\<lambda>r. running), lxst_stdout = []\<rparr>) \<and>
   close_pipeline lifecycle_lib ''pipeline_7''
     (LXSTManager_init\<lparr>pipelines := [(''pipeline_7'', 7)]\<rparr>,
      \<lparr>heap = (\<lambda>r. running), lxst_stdout = []\<rparr>) =
     (True, LXSTManager_init, \<lparr>heap = (\<lambda>r. running)(7 := stopped), lxst_stdout = []\<rparr>) \<and>
   close_pipeline lifecycle_lib ''pipeline_7''
     (LXSTManager_init, \<lparr>heap = (\<lambda>r. running)(7 := stopped), lxst_stdout = []\<rparr>) =
     (False, LXSTManager_init, \<lparr>heap = (\<lambda>r. running)(7 := stopped), lxst_stdout = []\<rparr>)"
proof -
  let ?m = "LXSTManager_init\<lparr>pipelines := [(''pipeline_7'', 7)]\<rparr>"
  let ?w = "\<lparr>heap = (\<lambda>r. running), lxst_stdout = []\<rparr> :: lifecycle lxst_world"
  let ?w' = "\<lparr>heap = (\<lambda>r. running)(7 := stopped), lxst_stdout = []\<rparr> :: lifecycle lxst_world"
  have absent: "map_of (pipelines ?m) ''pipeline_9'' = None"
    by simp
  have first: "close_pipeline lifecycle_lib ''pipeline_7'' (?m, ?w) = (True, LXSTManager_init, ?w')"
    by (simp add: lifecycle_lib_def spec_pipeline_active_def spec_pipeline_stop_def
        LXSTManager_init_def set_obj_def)
  from close_pipeline_unknown_id
    [where m = ?m and pipeline_id = "''pipeline_9''" and lib = lifecycle_lib and w = ?w] absent
  have unknown: "close_pipeline lifecycle_lib ''pipeline_9'' (?m, ?w) = (False, ?m, ?w)"
    by blast
  from close_pipeline_unknown_id
    [where m = ?m and pipeline_id = "''pipeline_7''" and lib = lifecycle_lib and w = ?w
       and m' = LXSTManager_init and w' = ?w'] first
  have second: "close_pipeline lifecycle_lib ''pipeline_7'' (LXSTManager_init, ?w') =
      (False, LXSTManager_init, ?w')"
    by blast
  from absent unknown first second show ?thesis
    by blast
qed

text \<open>
  C7. With pipelines that follow the lifecycle of the spec, \<open>stop_pipeline\<close> on a pipeline
  that is already stopped returns \<open>True\<close> and leaves the pipeline, the manager and the
  output unchanged; and on any pipeline, stopping twice gives the same outcome and the
  same state as stopping once.
\<close>

theorem stop_pipeline_idempotent:
  "pipeline_stop lib = spec_pipeline_stop \<Longrightarrow>
   (heap w pipeline = stopped \<longrightarrow> stop_pipeline lib pipeline (m, w) = (True, m, w)) \<and>
   stop_pipeline lib pipeline (snd (stop_pipeline lib pipeline (m, w))) =
     stop_pipeline lib pipeline (m, w)"
  by (simp add: spec_pipeline_stop_def set_obj_same set_obj_twice heap_set_obj)

theorem stop_pipeline_idempotent_witness:
  "pipeline_stop lifecycle_lib = spec_pipeline_stop \<and>
   heap \<lparr>heap = (\<lambda>r. if r = 7 then stopped else running), lxst_stdout = []\<rparr> 7 = stopped \<and>
   stop_pipeline lifecycle_lib 7
     (LXSTManager_init\<lparr>pipelines := [(''pipeline_7'', 7)]\<rparr>,
      \<lparr>heap = (\<lambda>r. if r = 7 then stopped else running), lxst_stdout = []\<rparr>) =
     (True, LXSTManager_init\<lparr>pipelines := [(''pipeline_7'', 7)]\<rparr>,
      \<lparr>heap = (\<lambda>r. if r = 7 then stopped else running), lxst_stdout = []\<rparr>)"
proof -
  let ?w = "\<lparr>heap = (\<lambda>r. if r = 7 then stopped else running), lxst_stdout = []\<rparr>
    :: lifecycle lxst_world"
  have lib: "pipeline_stop lifecycle_lib = spec_pipeline_stop"
    by (simp add: lifecycle_lib_def)
  have st: "heap ?w 7 = stopped"
    by simp
  from stop_pipeline_idempotent
    [OF lib, where w = ?w and pipeline = 7
       and m = "LXSTManager_init\<lparr>pipelines := [(''pipeline_7'', 7)]\<rparr>"] st lib
  show ?thesis
    by blast
qed

text \<open>
  C8. For every source type other than \<open>local\<close>, \<open>remote\<close> and \<open>file\<close>,
  \<open>create_audio_source\<close> returns \<open>None\<close>, prints the unknown-type line and registers
  nothing; and likewise \<open>create_audio_sink\<close> for every sink type other than \<open>local\<close>,
  \<open>remote\<close> and \<open>null\<close>.
\<close>

theorem create_unknown_kind:
  "(source_type \<notin> {''local'', ''remote'', ''file''} \<longrightarrow>
      create_audio_source lib source_type kwargs (m, w) =
        (None, m, print_line (''Unknown source type: '' @ source_type) w)) \<and>
   (sink_type \<notin> {''local'', ''remote'', ''null''} \<longrightarrow>
      create_audio_sink lib sink_type kwargs (m, w) =
        (None, m, print_line (''Unknown sink type: '' @ sink_type) w))"
  by simp

theorem create_unknown_kind_witness:
  "''null'' \<notin> {''local'', ''remote'', ''file''} \<and>
   create_audio_source lifecycle_lib ''null'' 3
     (LXSTManager_init, \<lparr>heap = (\<lambda>r. created), lxst_stdout = []\<rparr>) =
     (None, LXSTManager_init,
      \<lparr>heap = (\<lambda>r. created), lxst_stdout = [''Unknown source type: null'']\<rparr>) \<and>
   ''file'' \<notin> {''local'', ''remote'', ''null''} \<and>
   create_audio_sink lifecycle_lib ''file'' 3
     (LXSTManager_init, \<lparr>heap = (\<lambda>r. created), lxst_stdout = []\<rparr>) =
     (None, LXSTManager_init,
      \<lparr>heap = (\<lambda>r. created), lxst_stdout = [''Unknown sink type: file'']\<rparr>)"
  using create_unknown_kind
    [where source_type = "''null''" and sink_type = "''file''" and lib = lifecycle_lib
       and kwargs = 3 and m = LXSTManager_init
       and w = "\<lparr>heap = (\<lambda>r. created), lxst_stdout = []\<rparr>"]
  by (simp add: print_line_def)

text \<open>
  C10. For every registered pipeline id whose pipeline is active, if \<open>pipeline.stop()\<close>
  raises, \<open>close_pipeline\<close> returns \<open>False\<close> and the manager, its registry included, is
  unchanged. And a registered id is gone from the registry after \<open>close_pipeline\<close> only when
  the call returned \<open>True\<close> and, if the pipeline was active, \<open>pipeline.stop()\<close> did not raise.
\<close>

theorem close_pipeline_atomic_on_error:
  "(map_of (pipelines m) pipeline_id = Some pipeline \<and>
    pipeline_active lib (heap w pipeline) = Some True \<and>
    pipeline_stop lib (heap w pipeline) = (Some e, p) \<longrightarrow>
      (\<exists>w'. close_pipeline lib pipeline_id (m, w) = (False, m, w'))) \<and>
   (map_of (pipelines m) pipeline_id = Some pipeline \<and>
    close_pipeline lib pipeline_id (m, w) = (r, m', w') \<and>
    map_of (pipelines m') pipeline_id = None \<longrightarrow>
      r = True \<and> (pipeline_active lib (heap w pipeline) = Some True \<longrightarrow>
        fst (pipeline_stop lib (heap w pipeline)) = None))"
  by (auto split: option.splits if_splits prod.splits)

theorem close_pipeline_atomic_on_error_witness:
  "map_of (pipelines (LXSTManager_init\<lparr>pipelines := [(''pipeline_7'', 7)]\<rparr>)) ''pipeline_7'' = Some 7 \<and>
   pipeline_active stuck_lib (heap \<lparr>heap = (\<lambda>r. running), lxst_stdout = []\<rparr> 7) = Some True \<and>
   pipeline_stop stuck_lib (heap \<lparr>heap = (\<lambda>r. running), lxst_stdout = []\<rparr> 7) =
     (Some (OtherException ''device busy''), running) \<and>
   close_pipeline stuck_lib ''pipeline_7''
     (LXSTManager_init\<lparr>pipelines := [(''pipeline_7'', 7)]\<rparr>,
      \<lparr>heap = (\<lambda>r. running), lxst_stdout = []\<rparr>) =
     (False, LXSTManager_init\<lparr>pipelines := [(''pipeline_7'', 7)]\<rparr>,
      \<lparr>heap = (\<lambda>r. running),
       lxst_stdout = [''Failed to close pipeline pipeline_7: device busy'']\<rparr>)"
proof -
  let ?m = "LXSTManager_init\<lparr>pipelines := [(''pipeline_7'', 7)]\<rparr>"
  let ?w = "\<lparr>heap = (\<lambda>r. running), lxst_stdout = []\<rparr> :: lifecycle lxst_world"
  have reg: "map_of (pipelines ?m) ''pipeline_7'' = Some 7"
    by simp
  have act: "pipeline_active stuck_lib (heap ?w 7) = Some True"
    by (simp add: stuck_lib_def lifecycle_lib_def spec_pipeline_active_def)
  have raises: "pipeline_stop stuck_lib (heap ?w 7) = (Some (OtherException ''device busy''), running)"
    by (simp add: stuck_lib_def lifecycle_lib_def)
  from close_pipeline_atomic_on_error
    [where m = ?m and pipeline_id = "''pipeline_7''" and pipeline = 7 and lib = stuck_lib
       and w = ?w and e = "OtherException ''device busy''" and p = running]
    reg act raises
  obtain w' where fails: "close_pipeline stuck_lib ''pipeline_7'' (?m, ?w) = (False, ?m, w')"
    by blast
  have "close_pipeline stuck_lib ''pipeline_7'' (?m, ?w) =
      (False, ?m, \<lparr>heap = (\<lambda>r. running),
         lxst_stdout = [''Failed to close pipeline pipeline_7: device busy'']\<rparr>)"
    using fails act raises
    by (simp add: set_obj_def print_line_def fun_upd_idem)
  with reg act raises show ?thesis
    by blast
qed

subsection \<open>Messaging manager\<close>

lemma hash_length: "TRUNCATED_HASHLENGTH div 8 = 16"
  by (simp add: TRUNCATED_HASHLENGTH_def)

lemma calls_print: "calls (lxmf_print s w) = calls w"
  by (simp add: lxmf_print_def)

lemma stdout_call: "lxmf_stdout (lxmf_call c w) = lxmf_stdout w"
  by (simp add: lxmf_call_def)

lemma calls_call: "calls (lxmf_call c w) = calls w @ [c]"
  by (simp add: lxmf_call_def)

lemma stdout_print: "lxmf_stdout (lxmf_print s w) = lxmf_stdout w @ [s]"
  by (simp add: lxmf_print_def)

lemmas world_simps = calls_print stdout_call calls_call stdout_print

text \<open>
  C1. For every \<open>bytes\<close> argument whose length is not 16, \<open>create_message\<close> returns the
  failure value \<open>None\<close> and calls no library function (no lookup, no message constructor);
  once the manager has a destination, the line printed is the invalid-length one. For every
  argument of length 16 the length check passes whatever \<open>recall\<close> answers: the next thing
  done is the lookup \<open>RNS.Identity.recall\<close>, and the invalid-length line is not printed.
\<close>

theorem create_message_length_check:
  "(length h \<noteq> 16 \<longrightarrow>
      fst (create_message lib (Bytes h) body subject extra (m, w)) = None \<and>
      calls (snd (create_message lib (Bytes h) body subject extra (m, w))) = calls w) \<and>
   (length h \<noteq> 16 \<and> destination m = Some src \<longrightarrow>
      create_message lib (Bytes h) body subject extra (m, w) =
        (None, lxmf_print (''Invalid destination hash length: '' @ str_nat (length h)) w)) \<and>
   (length h = 16 \<and> destination m = Some src \<longrightarrow>
      (\<exists>later out.
         calls (snd (create_message lib (Bytes h) body subject extra (m, w))) =
           calls w @ Identity_recall h # later \<and>
         lxmf_stdout (snd (create_message lib (Bytes h) body subject extra (m, w))) =
           lxmf_stdout w @ out \<and>
         ''Invalid destination hash length: '' @ str_nat (length h) \<notin> set out))"
proof (intro conjI impI)
  assume "length h \<noteq> 16"
  then show "fst (create_message lib (Bytes h) body subject extra (m, w)) = None"
    by (simp add: create_message_def create_message_bytes_def hash_length split: option.splits)
next
  assume "length h \<noteq> 16"
  then show "calls (snd (create_message lib (Bytes h) body subject extra (m, w))) = calls w"
    by (simp add: create_message_def create_message_bytes_def hash_length world_simps
        split: option.splits)
next
  assume "length h \<noteq> 16 \<and> destination m = Some src"
  then show "create_message lib (Bytes h) body subject extra (m, w) =
      (None, lxmf_print (''Invalid destination hash length: '' @ str_nat (length h)) w)"
    by (simp add: create_message_def create_message_bytes_def hash_length)
next
  assume a: "length h = 16 \<and> destination m = Some src"
  let ?r = "create_message lib (Bytes h) body subject extra (m, w)"
  have eq: "?r = create_message_bytes lib src h body subject extra w"
    using a by (simp add: create_message_def)
  show "\<exists>later out. calls (snd ?r) = calls w @ Identity_recall h # later \<and>
         lxmf_stdout (snd ?r) = lxmf_stdout w @ out \<and>
         ''Invalid destination hash length: '' @ str_nat (length h) \<notin> set out"
    unfolding eq using a
    by (auto simp: create_message_bytes_def hash_length world_simps create_failed_def Let_def
        split: sum.splits option.splits)
qed

theorem create_message_length_check_witness:
  "length [1, 2, 3 :: 8 word] \<noteq> 16 \<and> destination ready_manager = Some 100 \<and>
   create_message loopback_lib (Bytes [1, 2, 3]) ''hello'' (Some ''hi'') None
     (ready_manager, quiet_world) =
     (None, \<lparr>calls = [], lxmf_stdout = [''Invalid destination hash length: 3'']\<rparr>) \<and>
   length (replicate 16 (0 :: 8 word)) = 16 \<and>
   (\<exists>later out.
      calls (snd (create_message loopback_lib (Bytes (replicate 16 0)) ''hello'' (Some ''hi'') None
        (ready_manager, quiet_world))) =
        calls quiet_world @ Identity_recall (replicate 16 0) # later \<and>
      lxmf_stdout (snd (create_message loopback_lib (Bytes (replicate 16 0)) ''hello'' (Some ''hi'')
        None (ready_manager, quiet_world))) = lxmf_stdout quiet_world @ out \<and>
      ''Invalid destination hash length: 16'' \<notin> set out)"
proof -
  have short: "length [1, 2, 3 :: 8 word] \<noteq> 16"
    by simp
  have long: "length (replicate 16 (0 :: 8 word)) = 16"
    by simp
  have dest: "destination ready_manager = Some 100"
    by (simp add: ready_manager_def)
  have three: "str_nat (Suc (Suc (Suc 0))) = ''3''"
    by (simp add: str_nat.simps)
  have sixteen: "str_nat 16 = ''16''"
    by (simp add: str_nat.simps)
  note check = create_message_length_check
    [where lib = loopback_lib and body = "''hello''" and subject = "Some ''hi''"
       and extra = None and m = ready_manager and w = quiet_world and src = 100]
  from check [where h = "[1, 2, 3]"] short dest
  have a: "create_message loopback_lib (Bytes [1, 2, 3]) ''hello'' (Some ''hi'') None
      (ready_manager, quiet_world) =
      (None, \<lparr>calls = [], lxmf_stdout = [''Invalid destination hash length: 3'']\<rparr>)"
    by (simp add: three lxmf_print_def quiet_world_def)
  from check [where h = "replicate 16 0"] long dest
  have b: "\<exists>later out.
      calls (snd (create_message loopback_lib (Bytes (replicate 16 0)) ''hello'' (Some ''hi'') None
        (ready_manager, quiet_world))) =
        calls quiet_world @ Identity_recall (replicate 16 0) # later \<and>
      lxmf_stdout (snd (create_message loopback_lib (Bytes (replicate 16 0)) ''hello'' (Some ''hi'')
        None (ready_manager, quiet_world))) = lxmf_stdout quiet_world @ out \<and>
      ''Invalid destination hash length: 16'' \<notin> set out"
    by (simp add: sixteen)
  from short dest a long b show ?thesis
    by blast
qed

text \<open>
  C2 (amended). For every destination hash of 16 bytes that \<open>recall\<close> cannot resolve, with
  the manager's destination initialised, \<open>create_message\<close> issues the path request after
  the lookup and returns \<open>None\<close>, the value it returns for every other failure; when the
  request does not raise, the two lines about the path request are what it prints.
\<close>

theorem create_message_unresolved:
  "length h = 16 \<and> destination m = Some src \<and> recall lib h = Inr None \<longrightarrow>
     fst (create_message lib (Bytes h) body subject extra (m, w)) = None \<and>
     calls (snd (create_message lib (Bytes h) body subject extra (m, w))) =
       calls w @ [Identity_recall h, Transport_request_path h] \<and>
     (request_path lib h = None \<longrightarrow>
        lxmf_stdout (snd (create_message lib (Bytes h) body subject extra (m, w))) =
          lxmf_stdout w @ [''Could not recall Identity for destination. Requesting path...'',
                           ''Path requested. Waiting for announce...''])"
  by (auto simp: create_message_def create_message_bytes_def hash_length world_simps
      create_failed_def Let_def split: option.splits)

theorem create_message_unresolved_witness:
  "length (replicate 16 (0 :: 8 word)) = 16 \<and> destination ready_manager = Some 100 \<and>
   recall loopback_lib (replicate 16 0) = Inr None \<and>
   request_path loopback_lib (replicate 16 0) = None \<and>
   create_message loopback_lib (Bytes (replicate 16 0)) ''hello'' (Some ''hi'') None
     (ready_manager, quiet_world) =
     (None,
      \<lparr>calls = [Identity_recall (replicate 16 0), Transport_request_path (replicate 16 0)],
       lxmf_stdout = [''Could not recall Identity for destination. Requesting path...'',
                      ''Path requested. Waiting for announce...'']\<rparr>)"
proof -
  have long: "length (replicate 16 (0 :: 8 word)) = 16"
    by simp
  have dest: "destination ready_manager = Some 100"
    by (simp add: ready_manager_def)
  have unknown: "recall loopback_lib (replicate 16 0) = Inr None"
    by (simp add: loopback_lib_def)
  have asked: "request_path loopback_lib (replicate 16 0) = None"
    by (simp add: loopback_lib_def)
  let ?r = "create_message loopback_lib (Bytes (replicate 16 0)) ''hello'' (Some ''hi'') None
     (ready_manager, quiet_world)"
  from create_message_unresolved
    [where h = "replicate 16 0" and m = ready_manager and src = 100 and lib = loopback_lib
       and body = "''hello''" and subject = "Some ''hi''" and extra = None and w = quiet_world]
    long dest unknown asked
  have "fst ?r = None \<and>
     calls (snd ?r) = calls quiet_world @
       [Identity_recall (replicate 16 0), Transport_request_path (replicate 16 0)] \<and>
     lxmf_stdout (snd ?r) = lxmf_stdout quiet_world @
       [''Could not recall Identity for destination. Requesting path...'',
        ''Path requested. Waiting for announce...'']"
    by blast
  then have "?r = (None,
      \<lparr>calls = [Identity_recall (replicate 16 0), Transport_request_path (replicate 16 0)],
       lxmf_stdout = [''Could not recall Identity for destination. Requesting path...'',
                      ''Path requested. Waiting for announce...'']\<rparr>)"
    by (cases ?r) (simp add: quiet_world_def)
  with long dest unknown asked show ?thesis
    by blast
qed

text \<open>
  C2 as stated fails: on the spec's scenario (sixteen zero bytes, unresolvable) the returned
  value is \<open>None\<close>, the same value as for an address of three bytes and for a string that
  is not hexadecimal, so the caller cannot tell the recoverable failure from a terminal one.
\<close>

theorem create_message_unresolved_same_outcome:
  "fst (create_message loopback_lib (Bytes (replicate 16 0)) ''hello'' (Some ''hi'') None
     (ready_manager, quiet_world)) = None \<and>
   fst (create_message loopback_lib (Bytes [1, 2, 3]) ''hello'' (Some ''hi'') None
     (ready_manager, quiet_world)) = None \<and>
   fst (create_message loopback_lib (Hex ''zz'') ''hello'' (Some ''hi'') None
     (ready_manager, quiet_world)) = None"
  by (simp add: create_message_def create_message_bytes_def hash_length ready_manager_def
      loopback_lib_def hexval_def isspace_def)

text \<open>
  C5 (amended). \<open>send_message\<close> returns \<open>False\<close> whenever the manager has no router.
  With a router it hands the message to \<open>router.handle_outbound\<close> and returns \<open>True\<close> as
  soon as that call returns, \<open>False\<close> when it raises: \<open>True\<close> says the message was
  submitted, nothing about delivery. The manager's destination is not consulted.
\<close>

theorem send_message_router_gate:
  "(router m = None \<longrightarrow>
      send_message lib message (m, w) = (False, lxmf_print ''LXMF router not initialized'' w)) \<and>
   (router m = Some r \<and> handle_outbound lib r message = None \<longrightarrow>
      send_message lib message (m, w) = (True, lxmf_call (Router_handle_outbound message) w)) \<and>
   (router m = Some r \<and> handle_outbound lib r message = Some e \<longrightarrow>
      send_message lib message (m, w) =
        (False, lxmf_print (''Failed to send LXMF message: '' @ exn_str e)
                  (lxmf_call (Router_handle_outbound message) w)))"
  by (simp add: send_message_def)

theorem send_message_router_gate_witness:
  "router (LXMFManager_init :: (nat, nat, nat) LXMFManager) = None \<and>
   send_message loopback_lib hello_message (LXMFManager_init, quiet_world) =
     (False, \<lparr>calls = [], lxmf_stdout = [''LXMF router not initialized'']\<rparr>) \<and>
   router ready_manager = Some 1 \<and> handle_outbound loopback_lib 1 hello_message = None \<and>
   send_message loopback_lib hello_message (ready_manager, quiet_world) =
     (True, \<lparr>calls = [Router_handle_outbound hello_message], lxmf_stdout = []\<rparr>)"
proof -
  have none: "router (LXMFManager_init :: (nat, nat, nat) LXMFManager) = None"
    by (simp add: LXMFManager_init_def)
  have some: "router ready_manager = Some 1"
    by (simp add: ready_manager_def)
  have accepted: "handle_outbound loopback_lib 1 hello_message = None"
    by (simp add: loopback_lib_def)
  from send_message_router_gate
    [where m = "LXMFManager_init :: (nat, nat, nat) LXMFManager" and lib = loopback_lib
       and message = hello_message and w = quiet_world] none
  have a: "send_message loopback_lib hello_message (LXMFManager_init, quiet_world) =
     (False, \<lparr>calls = [], lxmf_stdout = [''LXMF router not initialized'']\<rparr>)"
    by (simp add: lxmf_print_def quiet_world_def)
  from send_message_router_gate
    [where m = ready_manager and lib = loopback_lib and message = hello_message
       and w = quiet_world and r = 1] some accepted
  have b: "send_message loopback_lib hello_message (ready_manager, quiet_world) =
     (True, \<lparr>calls = [Router_handle_outbound hello_message], lxmf_stdout = []\<rparr>)"
    by (simp add: lxmf_call_def quiet_world_def)
  from none a some accepted b show ?thesis
    by blast
qed

text \<open>
  C5 as stated fails: when \<open>register_delivery_identity\<close> raises during \<open>initialize\<close>, the
  manager is left with a router and no destination, and \<open>send_message\<close> returns \<open>True\<close>.
\<close>

theorem send_message_without_destination:
  "fst (lxmf_initialize refusing_lib 5 ''rns_flet_app_messaging'' None (Some ''RNS Flet App'')
     (LXMFManager_init, quiet_world)) = False \<and>
   destination (fst (snd (lxmf_initialize refusing_lib 5 ''rns_flet_app_messaging'' None
     (Some ''RNS Flet App'') (LXMFManager_init, quiet_world)))) = None \<and>
   fst (send_message refusing_lib hello_message
     (snd (lxmf_initialize refusing_lib 5 ''rns_flet_app_messaging'' None (Some ''RNS Flet App'')
        (LXMFManager_init, quiet_world)))) = True"
  by (simp add: send_message_def refusing_lib_def loopback_lib_def LXMFManager_init_def
      join_def)

subsection \<open>Network session and identity store\<close>

lemma initialize_calls_initialized:
  "initialized m \<Longrightarrow> initialize_calls rs (m, w) = (map (\<lambda>r. Inr True) rs, m, w)"
  by (induction rs) simp_all

lemma initialize_reticulum_failure:
  "\<not> initialized m \<Longrightarrow>
   \<exists>x w'. initialize_reticulum (Some e) (m, w) = (x, m, w') \<and>
     reticulum_instances w' = reticulum_instances w"
  by (cases e) (simp_all add: rns_print_def)

lemma initialize_calls_success:
  "\<not> initialized m \<Longrightarrow>
   initialize_calls (None # rs) (m, w) =
     (Inr True # map (\<lambda>r. Inr True) rs, m\<lparr>initialized := True\<rparr>,
      w\<lparr>reticulum_calls := Suc (reticulum_calls w),
        reticulum_instances := Suc (reticulum_instances w)\<rparr>)"
  by (simp add: initialize_calls_initialized)

lemma initialize_calls_instances:
  "reticulum_instances (snd (snd (initialize_calls rs (m, w)))) \<le> Suc (reticulum_instances w)"
proof (induction rs arbitrary: w)
  case Nil
  show ?case by simp
next
  case (Cons r rs)
  show ?case
  proof (cases "initialized m")
    case True
    then have "initialize_calls (r # rs) (m, w) = (map (\<lambda>r. Inr True) (r # rs), m, w)"
      by (rule initialize_calls_initialized)
    then show ?thesis
      by simp
  next
    case False
    show ?thesis
    proof (cases r)
      case None
      have "initialize_calls (r # rs) (m, w) =
          (Inr True # map (\<lambda>r. Inr True) rs, m\<lparr>initialized := True\<rparr>,
           w\<lparr>reticulum_calls := Suc (reticulum_calls w),
             reticulum_instances := Suc (reticulum_instances w)\<rparr>)"
        unfolding None using False by (rule initialize_calls_success)
      then show ?thesis
        by simp
    next
      case (Some e)
      from initialize_reticulum_failure [OF False, of e w]
      obtain x w' where step: "initialize_reticulum (Some e) (m, w) = (x, m, w')"
        and same: "reticulum_instances w' = reticulum_instances w"
        by blast
      have unfold: "initialize_calls (r # rs) (m, w) =
          (case initialize_calls rs (m, w') of (xs, s'') \<Rightarrow> (x # xs, s''))"
        by (simp only: Some initialize_calls.simps step prod.case)
      obtain xs s'' where rest: "initialize_calls rs (m, w') = (xs, s'')"
        by (cases "initialize_calls rs (m, w')") blast
      from Cons.IH [of w'] same show ?thesis
        by (simp only: unfold rest prod.case snd_conv)
    qed
  qed
qed

text \<open>
  C3 (amended). Once \<open>initialize\<close> has succeeded it is idempotent: on an initialized
  manager every call returns \<open>True\<close> and changes nothing; on a fresh manager whose first
  call's \<open>RNS.Reticulum()\<close> returns, that call initializes and every later call is a no-op
  returning \<open>True\<close>, with one instance created. In every sequence of calls at most one
  instance is created. A call on a fresh manager whose \<open>RNS.Reticulum()\<close> raises
  \<open>OSError\<close> or \<open>ValueError\<close> returns \<open>False\<close>, prints the failure line and leaves the
  manager uninitialized, so that the next call runs the initialization again: if
  \<open>RNS.Reticulum()\<close> returns then, that call and every later one return \<open>True\<close>.
\<close>

theorem initialize_idempotent_after_success:
  "(initialized m \<longrightarrow> initialize_calls rs (m, w) = (map (\<lambda>r. Inr True) rs, m, w)) \<and>
   (\<not> initialized m \<longrightarrow>
      initialize_calls (None # rs) (m, w) =
        (Inr True # map (\<lambda>r. Inr True) rs, m\<lparr>initialized := True\<rparr>,
         w\<lparr>reticulum_calls := Suc (reticulum_calls w),
           reticulum_instances := Suc (reticulum_instances w)\<rparr>)) \<and>
   reticulum_instances (snd (snd (initialize_calls rs (m, w)))) \<le> Suc (reticulum_instances w) \<and>
   (\<not> initialized m \<and> (e = OSError msg \<or> e = ValueError msg) \<longrightarrow>
      initialize_reticulum (Some e) (m, w) =
        (Inr False, m,
         rns_print (''Failed to initialize Reticulum: '' @ msg)
           (w\<lparr>reticulum_calls := Suc (reticulum_calls w)\<rparr>)) \<and>
      initialize_calls (Some e # None # rs) (m, w) =
        (Inr False # Inr True # map (\<lambda>r. Inr True) rs, m\<lparr>initialized := True\<rparr>,
         rns_print (''Failed to initialize Reticulum: '' @ msg)
           (w\<lparr>reticulum_calls := Suc (reticulum_calls w)\<rparr>)
         \<lparr>reticulum_calls := Suc (Suc (reticulum_calls w)),
          reticulum_instances := Suc (reticulum_instances w)\<rparr>))"
proof (intro conjI impI)
  assume "initialized m"
  then show "initialize_calls rs (m, w) = (map (\<lambda>r. Inr True) rs, m, w)"
    by (rule initialize_calls_initialized)
next
  assume "\<not> initialized m"
  then show "initialize_calls (None # rs) (m, w) =
        (Inr True # map (\<lambda>r. Inr True) rs, m\<lparr>initialized := True\<rparr>,
         w\<lparr>reticulum_calls := Suc (reticulum_calls w),
           reticulum_instances := Suc (reticulum_instances w)\<rparr>)"
    by (rule initialize_calls_success)
next
  show "reticulum_instances (snd (snd (initialize_calls rs (m, w)))) \<le> Suc (reticulum_instances w)"
    by (rule initialize_calls_instances)
next
  assume a: "\<not> initialized m \<and> (e = OSError msg \<or> e = ValueError msg)"
  then show "initialize_reticulum (Some e) (m, w) =
        (Inr False, m,
         rns_print (''Failed to initialize Reticulum: '' @ msg)
           (w\<lparr>reticulum_calls := Suc (reticulum_calls w)\<rparr>))"
    by auto
next
  assume a: "\<not> initialized m \<and> (e = OSError msg \<or> e = ValueError msg)"
  let ?w1 = "rns_print (''Failed to initialize Reticulum: '' @ msg)
           (w\<lparr>reticulum_calls := Suc (reticulum_calls w)\<rparr>)"
  from a have step: "initialize_reticulum (Some e) (m, w) = (Inr False, m, ?w1)"
    by auto
  from a have fresh: "\<not> initialized m"
    by simp
  have again: "initialize_calls (None # rs) (m, ?w1) =
      (Inr True # map (\<lambda>r. Inr True) rs, m\<lparr>initialized := True\<rparr>,
       ?w1\<lparr>reticulum_calls := Suc (reticulum_calls ?w1),
           reticulum_instances := Suc (reticulum_instances ?w1)\<rparr>)"
    using fresh by (rule initialize_calls_success)
  have counts: "reticulum_calls ?w1 = Suc (reticulum_calls w) \<and>
      reticulum_instances ?w1 = reticulum_instances w"
    by (simp add: rns_print_def)
  have "initialize_calls (Some e # None # rs) (m, w) =
      (case initialize_calls (None # rs) (m, ?w1) of (xs, s'') \<Rightarrow> (Inr False # xs, s''))"
    by (simp only: initialize_calls.simps(2) [of "Some e"] step prod.case)
  then show "initialize_calls (Some e # None # rs) (m, w) =
        (Inr False # Inr True # map (\<lambda>r. Inr True) rs, m\<lparr>initialized := True\<rparr>,
         ?w1\<lparr>reticulum_calls := Suc (Suc (reticulum_calls w)),
          reticulum_instances := Suc (reticulum_instances w)\<rparr>)"
    by (simp only: again prod.case counts)
qed

theorem initialize_idempotent_after_success_witness:
  "\<not> initialized (RNSManager_init :: nat RNSManager) \<and>
   initialize_calls [None, None, Some (OSError ''busy'')] (RNSManager_init :: nat RNSManager, fresh_world) =
     ([Inr True, Inr True, Inr True], RNSManager_init\<lparr>initialized := True\<rparr>,
      fresh_world\<lparr>reticulum_calls := 1, reticulum_instances := 1\<rparr>) \<and>
   initialized (RNSManager_init\<lparr>initialized := True\<rparr> :: nat RNSManager) \<and>
   initialize_calls [None, None] (RNSManager_init\<lparr>initialized := True\<rparr> :: nat RNSManager, fresh_world) =
     ([Inr True, Inr True], RNSManager_init\<lparr>initialized := True\<rparr>, fresh_world) \<and>
   initialize_reticulum (Some (ValueError ''bad config'')) (RNSManager_init :: nat RNSManager, fresh_world) =
     (Inr False, RNSManager_init,
      fresh_world\<lparr>reticulum_calls := 1,
        rns_stdout := [''Failed to initialize Reticulum: bad config'']\<rparr>) \<and>
   initialize_calls [Some (ValueError ''bad config''), None, None]
     (RNSManager_init :: nat RNSManager, fresh_world) =
     ([Inr False, Inr True, Inr True], RNSManager_init\<lparr>initialized := True\<rparr>,
      fresh_world\<lparr>reticulum_calls := 2, reticulum_instances := 1,
        rns_stdout := [''Failed to initialize Reticulum: bad config'']\<rparr>)"
proof -
  let ?m = "RNSManager_init :: nat RNSManager"
  have fresh: "\<not> initialized ?m"
    by (simp add: RNSManager_init_def)
  have already: "initialized (?m\<lparr>initialized := True\<rparr>)"
    by simp
  from initialize_idempotent_after_success
    [where m = ?m and w = fresh_world and rs = "[None, Some (OSError ''busy'')]"] fresh
  have a: "initialize_calls [None, None, Some (OSError ''busy'')] (?m, fresh_world) =
     ([Inr True, Inr True, Inr True], ?m\<lparr>initialized := True\<rparr>,
      fresh_world\<lparr>reticulum_calls := 1, reticulum_instances := 1\<rparr>)"
    by (simp add: fresh_world_def)
  from initialize_idempotent_after_success
    [where m = "?m\<lparr>initialized := True\<rparr>" and w = fresh_world and rs = "[None, None]"] already
  have b: "initialize_calls [None, None] (?m\<lparr>initialized := True\<rparr>, fresh_world) =
     ([Inr True, Inr True], ?m\<lparr>initialized := True\<rparr>, fresh_world)"
    by simp
  from initialize_idempotent_after_success
    [where m = ?m and w = fresh_world and rs = "[None]" and e = "ValueError ''bad config''"
       and msg = "''bad config''"] fresh
  have c: "initialize_reticulum (Some (ValueError ''bad config'')) (?m, fresh_world) =
     (Inr False, ?m,
      fresh_world\<lparr>reticulum_calls := 1,
        rns_stdout := [''Failed to initialize Reticulum: bad config'']\<rparr>) \<and>
   initialize_calls [Some (ValueError ''bad config''), None, None] (?m, fresh_world) =
     ([Inr False, Inr True, Inr True], ?m\<lparr>initialized := True\<rparr>,
      fresh_world\<lparr>reticulum_calls := 2, reticulum_instances := 1,
        rns_stdout := [''Failed to initialize Reticulum: bad config'']\<rparr>)"
    by (simp add: fresh_world_def rns_print_def)
  from fresh a already b c show ?thesis
    by blast
qed

text \<open>
  C3 as stated fails: when \<open>RNS.Reticulum()\<close> raises \<open>OSError\<close> on the first call, that call
  returns \<open>False\<close>, and the second call runs the initialization again.
\<close>

theorem initialize_retry_after_failure:
  "fst (initialize_calls [Some (OSError ''busy''), None] (RNSManager_init :: nat RNSManager, fresh_world)) =
     [Inr False, Inr True] \<and>
   reticulum_calls (snd (snd (initialize_calls [Some (OSError ''busy''), None]
     (RNSManager_init :: nat RNSManager, fresh_world)))) = 2"
  by (simp add: RNSManager_init_def fresh_world_def rns_print_def)

lemma failed_keeps_disk:
  "files (create_identity_failed e w) = files w \<and>
   directories (create_identity_failed e w) = directories w \<and>
   identities_generated (create_identity_failed e w) = identities_generated w"
  by (simp add: create_identity_failed_def rns_print_def)

text \<open>
  C4. When the identity file exists and loading it fails (\<open>from_file\<close> returns \<open>None\<close> or
  raises), \<open>create_identity\<close> returns the failure value \<open>None\<close>, generates no identity,
  and leaves every file and directory as it was: the existing file is not overwritten.
\<close>

theorem create_identity_corrupt_file:
  "configpath lib = Some config_path \<and>
   path_exists w (join (join (dirname config_path) ''storage'') ''identity'') \<and>
   (from_file lib (files w (join (join (dirname config_path) ''storage'') ''identity'')) = Inr None \<or>
    from_file lib (files w (join (join (dirname config_path) ''storage'') ''identity'')) = Inl e) \<longrightarrow>
     fst (create_identity lib (m, w)) = None \<and>
     files (snd (snd (create_identity lib (m, w)))) = files w \<and>
     directories (snd (snd (create_identity lib (m, w)))) = directories w \<and>
     identities_generated (snd (snd (create_identity lib (m, w)))) = identities_generated w \<and>
     rns_identity (fst (snd (create_identity lib (m, w)))) \<in> {None, rns_identity m}"
proof (intro impI, elim conjE)
  let ?f = "join (join (dirname config_path) ''storage'') ''identity''"
  assume cfg: "configpath lib = Some config_path"
    and ex: "path_exists w ?f"
    and bad: "from_file lib (files w ?f) = Inr None \<or> from_file lib (files w ?f) = Inl e"
  from bad show "fst (create_identity lib (m, w)) = None \<and>
     files (snd (snd (create_identity lib (m, w)))) = files w \<and>
     directories (snd (snd (create_identity lib (m, w)))) = directories w \<and>
     identities_generated (snd (snd (create_identity lib (m, w)))) = identities_generated w \<and>
     rns_identity (fst (snd (create_identity lib (m, w)))) \<in> {None, rns_identity m}"
  proof
    assume "from_file lib (files w ?f) = Inr None"
    with cfg ex show ?thesis
      by (simp add: Let_def)
  next
    assume "from_file lib (files w ?f) = Inl e"
    with cfg ex show ?thesis
      by (simp add: Let_def failed_keeps_disk)
  qed
qed

theorem create_identity_corrupt_file_witness:
  "configpath disk_lib = Some ''/home/user/.reticulum/config'' \<and>
   path_exists (fresh_world\<lparr>files := (\<lambda>p. None)(''/home/user/.reticulum/storage/identity'' := Some ''garbage'')\<rparr>)
     (join (join (dirname ''/home/user/.reticulum/config'') ''storage'') ''identity'') \<and>
   from_file disk_lib
     (files (fresh_world\<lparr>files := (\<lambda>p. None)(''/home/user/.reticulum/storage/identity'' := Some ''garbage'')\<rparr>)
        (join (join (dirname ''/home/user/.reticulum/config'') ''storage'') ''identity'')) = Inr None \<and>
   fst (create_identity disk_lib
     (RNSManager_init,
      fresh_world\<lparr>files := (\<lambda>p. None)(''/home/user/.reticulum/storage/identity'' := Some ''garbage'')\<rparr>)) = None \<and>
   files (snd (snd (create_identity disk_lib
     (RNSManager_init,
      fresh_world\<lparr>files := (\<lambda>p. None)(''/home/user/.reticulum/storage/identity'' := Some ''garbage'')\<rparr>))))
     ''/home/user/.reticulum/storage/identity'' = Some ''garbage''"
proof -
  let ?w = "fresh_world\<lparr>files := (\<lambda>p. None)(''/home/user/.reticulum/storage/identity'' := Some ''garbage'')\<rparr>"
  let ?f = "join (join (dirname ''/home/user/.reticulum/config'') ''storage'') ''identity''"
  have path: "?f = ''/home/user/.reticulum/storage/identity''"
    by (simp add: dirname_def join_def)
  have cfg: "configpath disk_lib = Some ''/home/user/.reticulum/config''"
    by (simp add: disk_lib_def)
  have ex: "path_exists ?w ?f"
    unfolding path by (simp add: path_exists_def)
  have bad: "from_file disk_lib (files ?w ?f) = Inr None"
    unfolding path by (simp add: disk_lib_def)
  from create_identity_corrupt_file
    [where lib = disk_lib and config_path = "''/home/user/.reticulum/config''" and w = ?w
       and m = RNSManager_init and e = "OSError []"] cfg ex bad
  have "fst (create_identity disk_lib (RNSManager_init, ?w)) = None \<and>
     files (snd (snd (create_identity disk_lib (RNSManager_init, ?w)))) = files ?w"
    by blast
  then have "fst (create_identity disk_lib (RNSManager_init, ?w)) = None \<and>
     files (snd (snd (create_identity disk_lib (RNSManager_init, ?w))))
       ''/home/user/.reticulum/storage/identity'' = Some ''garbage''"
    by simp
  with cfg ex bad show ?thesis
    by blast
qed

subsection \<open>Inbound message list\<close>

lemma callback_list:
  "messages_list (message_callback env message s) = make_msg_data env message # messages_list s"
  by (simp add: message_callback_def)

lemma deliver_list:
  "messages_list (deliver env ms s) = rev (map (make_msg_data env) ms) @ messages_list s"
  by (induction ms arbitrary: s) (simp_all add: callback_list)

text \<open>
  C9. Every invocation of \<open>message_callback\<close> puts exactly one new record, the projection
  of the delivered message, at the head of \<open>messages_list\<close> and keeps the records already
  there, unchanged and in their order, behind it. After any sequence of deliveries the list
  is the new records, newest first, followed by the old list.
\<close>

theorem message_callback_inserts_at_head:
  "messages_list (message_callback env message s) = make_msg_data env message # messages_list s \<and>
   messages_list (deliver env ms s) = rev (map (make_msg_data env) ms) @ messages_list s"
  by (simp add: callback_list deliver_list)

theorem message_callback_inserts_at_head_witness:
  "messages_list (message_callback ascii_env
     \<lparr>source_hash = Some (PyBytes (replicate 16 1)), source = None,
      content = Some (PyBytes [104, 105]), title = Some (PyStr ''t'')\<rparr>
     \<lparr>messages_list =
        [\<lparr>sender_name = ''You'', sender_hash = ''0a'', sender_hash_bytes = PyBytes [10],
          msg_data_title = [], msg_data_content = ''ping'', is_sent = Some True\<rparr>],
      page_ref = Some 1, ui_updates = 0, app_stdout = []\<rparr>) =
     [\<lparr>sender_name = ''alice'', sender_hash = ''01010101010101010101010101010101'',
       sender_hash_bytes = PyBytes (replicate 16 1), msg_data_title = ''t'',
       msg_data_content = ''hi'', is_sent = None\<rparr>,
      \<lparr>sender_name = ''You'', sender_hash = ''0a'', sender_hash_bytes = PyBytes [10],
       msg_data_title = [], msg_data_content = ''ping'', is_sent = Some True\<rparr>]"
proof -
  let ?message = "\<lparr>source_hash = Some (PyBytes (replicate 16 1)), source = None,
      content = Some (PyBytes [104, 105]), title = Some (PyStr ''t'')\<rparr>"
  have projected: "make_msg_data ascii_env ?message =
      \<lparr>sender_name = ''alice'', sender_hash = ''01010101010101010101010101010101'',
       sender_hash_bytes = PyBytes (replicate 16 1), msg_data_title = ''t'',
       msg_data_content = ''hi'', is_sent = None\<rparr>"
    by code_simp
  from message_callback_inserts_at_head
    [where env = ascii_env and message = ?message and ms = "[]"
       and s = "\<lparr>messages_list =
        [\<lparr>sender_name = ''You'', sender_hash = ''0a'', sender_hash_bytes = PyBytes [10],
          msg_data_title = [], msg_data_content = ''ping'', is_sent = Some True\<rparr>],
      page_ref = Some 1, ui_updates = 0, app_stdout = []\<rparr>"]
  show ?thesis
    by (simp add: projected)
qed

end
